theory Spec2Isabelle
  imports Main "HOL-Library.Word"
begin

section \<open>JavaScript strings\<close>

text \<open>
  A JavaScript string is a sequence of UTF-16 code units. String literals of the source
  are written with \<open>ustr\<close>, which maps each character of an Isabelle literal to its code
  unit.
\<close>

type_synonym codeunit = "16 word"
type_synonym jsstring = "codeunit list"

definition ustr :: "string \<Rightarrow> jsstring" where
  "ustr s = map of_char s"

text \<open>
  \<open>String.prototype.trim\<close> removes the code units of the ECMAScript productions
  WhiteSpace (TAB, VT, FF, SP, NBSP, ZWNBSP and the category Zs) and LineTerminator
  (LF, CR, LS, PS) from both ends of the string.
\<close>

definition isWhiteSpace :: "codeunit \<Rightarrow> bool" where
  "isWhiteSpace c \<longleftrightarrow>
     c = 0x0009 \<or> c = 0x000A \<or> c = 0x000B \<or> c = 0x000C \<or> c = 0x000D \<or> c = 0x0020 \<or>
     c = 0x00A0 \<or> c = 0x1680 \<or> (0x2000 \<le> c \<and> c \<le> 0x200A) \<or> c = 0x2028 \<or>
     c = 0x2029 \<or> c = 0x202F \<or> c = 0x205F \<or> c = 0x3000 \<or> c = 0xFEFF"

definition trim :: "jsstring \<Rightarrow> jsstring" where
  "trim s = rev (dropWhile isWhiteSpace (rev (dropWhile isWhiteSpace s)))"

text \<open>The regular expression \<open>/^[A-Z]{2}$/\<close> (no flags) and its \<open>test\<close> method.\<close>

definition isUpperAZ :: "codeunit \<Rightarrow> bool" where
  "isUpperAZ c \<longleftrightarrow> 0x41 \<le> c \<and> c \<le> 0x5A"

fun regex_AZ2_test :: "jsstring \<Rightarrow> bool" where
  "regex_AZ2_test [a, b] = (isUpperAZ a \<and> isUpperAZ b)"
| "regex_AZ2_test _ = False"

text \<open>
  \<open>Number::toString\<close> on a non-negative integer: its decimal digits. The numbers the
  program converts are an array length and an HTTP status, both far below \<open>10^21\<close>, where
  JavaScript would switch to exponent notation.
\<close>

fun numberToString :: "nat \<Rightarrow> jsstring" where
  "numberToString n =
     (if n < 10 then [of_nat (48 + n)]
      else numberToString (n div 10) @ [of_nat (48 + n mod 10)])"

declare numberToString.simps [simp del]

section \<open>Values, errors and the host\<close>

text \<open>The values that reach \<open>validateStateInput\<close> and that it returns.\<close>

datatype jsval = VUndefined | VNull | VBool bool | VStr jsstring

fun truthy :: "jsval \<Rightarrow> bool" where
  "truthy VUndefined = False"
| "truthy VNull = False"
| "truthy (VBool b) = b"
| "truthy (VStr s) = (s \<noteq> [])"

text \<open>
  A property of a parsed JSON object as the program reads it: missing (\<open>undefined\<close>),
  \<open>null\<close>, or a value of the type the API documents for it.
\<close>

datatype 'a jsprop = Undefined | Null | Value 'a

text \<open>
  Errors. \<open>Error m\<close> is \<open>new Error(m)\<close> of the source. \<open>TypeError f\<close> is raised by the
  engine itself, when a property of \<open>undefined\<close> or \<open>null\<close> is read or a non-function is
  called; the wording of its message is the engine's. \<open>HostError m\<close> is an error object
  with message \<open>m\<close> with which \<open>fetch\<close> or \<open>response.json()\<close> rejects.
\<close>

datatype nullish = IsUndefined | IsNull

datatype fault = ReadOfNullish nullish string | NotAFunction string

datatype jserror = Error jsstring | TypeError fault | HostError jsstring

text \<open>
  What the program takes from the JavaScript engine without defining it:
  \<open>String.prototype.toUpperCase\<close> (the Unicode case mapping) and the message text of
  the engine's own type errors. Both are parameters of the model.
\<close>

record host =
  toUpperCase :: "jsstring \<Rightarrow> jsstring"
  faultMessage :: "fault \<Rightarrow> jsstring"

fun message :: "host \<Rightarrow> jserror \<Rightarrow> jsstring" where
  "message h (Error m) = m"
| "message h (TypeError f) = faultMessage h f"
| "message h (HostError m) = m"

text \<open>
  \<open>toUpperCase\<close> restricted to the Basic Latin letters, and a host built from it. It
  agrees with the engine's function on every string of ASCII code units and serves as
  the concrete host of the examples.
\<close>

definition asciiUpper :: "jsstring \<Rightarrow> jsstring" where
  "asciiUpper s = map (\<lambda>c. if 0x61 \<le> c \<and> c \<le> 0x7A then c - 0x20 else c) s"

fun v8Message :: "fault \<Rightarrow> jsstring" where
  "v8Message (ReadOfNullish v p) =
     ustr ''Cannot read properties of '' @
     (case v of IsUndefined \<Rightarrow> ustr ''undefined'' | IsNull \<Rightarrow> ustr ''null'') @
     ustr '' (reading '' @ [0x27] @ ustr p @ [0x27] @ ustr '')''"
| "v8Message (NotAFunction f) = ustr f @ ustr '' is not a function''"

definition asciiHost :: host where
  "asciiHost = \<lparr>toUpperCase = asciiUpper, faultMessage = v8Message\<rparr>"

text \<open>
  The facts about \<open>toUpperCase\<close> that the results below rely on: the empty string stays
  empty, and a string of two letters \<open>A\<close> to \<open>Z\<close> is left as it is.
\<close>

definition upperCaseLaws :: "host \<Rightarrow> bool" where
  "upperCaseLaws h \<longleftrightarrow>
     toUpperCase h [] = [] \<and>
     (\<forall>a b. isUpperAZ a \<and> isUpperAZ b \<longrightarrow> toUpperCase h [a, b] = [a, b])"

section \<open>Validator\<close>

text \<open>\<open>state.trim()\<close>: defined on strings; on any other value the call raises.\<close>

fun callTrim :: "jsval \<Rightarrow> jserror + jsstring" where
  "callTrim (VStr s) = Inr (trim s)"
| "callTrim (VBool b) = Inl (TypeError (NotAFunction ''state.trim''))"
| "callTrim VUndefined = Inl (TypeError (ReadOfNullish IsUndefined ''trim''))"
| "callTrim VNull = Inl (TypeError (ReadOfNullish IsNull ''trim''))"

definition emptyInputMessage :: jsstring where
  "emptyInputMessage = ustr ''Please enter a state abbreviation''"

definition wrongFormatMessage :: jsstring where
  "wrongFormatMessage = ustr ''State abbreviation must be exactly 2 letters''"

definition validateStateInput :: "host \<Rightarrow> jsval \<Rightarrow> jserror + jsval" where
  "validateStateInput h state =
     (if \<not> truthy state then Inl (Error emptyInputMessage)
      else case callTrim state of
        Inl e \<Rightarrow> Inl e
      | Inr t \<Rightarrow>
          if t = [] then Inl (Error emptyInputMessage)
          else (case callTrim state of
            Inl e \<Rightarrow> Inl e
          | Inr t' \<Rightarrow>
              let trimmedState = toUpperCase h t' in
              if length trimmedState \<noteq> 2 \<or> \<not> regex_AZ2_test trimmedState
              then Inl (Error wrongFormatMessage)
              else Inr (VBool True)))"

text \<open>\<open>stateValue.trim().toUpperCase()\<close>, as \<open>handleGetAlerts\<close> computes it.\<close>

definition normalizedState :: "host \<Rightarrow> jsstring \<Rightarrow> jsstring" where
  "normalizedState h stateValue = toUpperCase h (trim stateValue)"

section \<open>The page, the console and the network\<close>

text \<open>
  The parsed response body as \<open>displayAlerts\<close> reads it: an object with an optional
  \<open>title\<close> string and an optional \<open>features\<close> array, each entry an object with an
  optional \<open>properties\<close> object holding an optional \<open>headline\<close> string. The body itself
  and each entry of the array may also be \<open>null\<close>.
\<close>

record alert_properties =
  headline :: "jsstring jsprop"

record alert =
  properties :: "alert_properties jsprop"

record alertData =
  title :: "jsstring jsprop"
  features :: "alert jsprop list jsprop"

text \<open>
  A DOM node: a text node, or an element with its tag, its \<open>className\<close> and its children.
  Assigning a string to \<open>textContent\<close> replaces the children by one text node, or by
  nothing when the string is empty.
\<close>

datatype node = Text jsstring | Element string string "node list"

definition setTextContent :: "jsstring \<Rightarrow> node list" where
  "setTextContent s = (if s = [] then [] else [Text s])"

text \<open>
  The four elements the program looks up by id. Each may be missing from the page:
  \<open>getElementById\<close> then returns \<open>null\<close>, here \<open>None\<close>.
  \<^item> \<open>alerts-display\<close>: its children;
  \<^item> \<open>error-message\<close>: its text and its class list;
  \<^item> \<open>state-input\<close>: its \<open>value\<close>;
  \<^item> \<open>fetch-alerts\<close>: its \<open>disabled\<close> flag and its label.
  The world also holds what was written to the console and the URLs requested so far.
\<close>

record error_element =
  errorText :: jsstring
  classList :: "jsstring list"

record button_element =
  disabled :: bool
  buttonText :: jsstring

datatype logged = LoggedData "alertData jsprop" | LoggedString jsstring

datatype console_entry = ConsoleLog string logged | ConsoleError string

record world =
  alertsDisplay :: "node list option"
  errorMessage :: "error_element option"
  stateInput :: "jsstring option"
  fetchButton :: "button_element option"
  console :: "console_entry list"
  requests :: "jsstring list"

text \<open>
  An awaited promise is fulfilled, rejected, or never settles. A response carries its
  status, its status text and the outcome of \<open>response.json()\<close>, which rejects when the
  body is not valid JSON. \<open>response.ok\<close> is true exactly for the statuses 200 to 299.
\<close>

datatype 'a promise = Fulfilled 'a | Rejected jserror | Pending

record response =
  status :: nat
  statusText :: jsstring
  json :: "alertData jsprop promise"

definition ok :: "response \<Rightarrow> bool" where
  "ok r \<longleftrightarrow> 200 \<le> status r \<and> status r \<le> 299"

type_synonym network = "jsstring \<Rightarrow> response promise"

section \<open>AlertFetcher\<close>

definition API_BASE_URL :: jsstring where
  "API_BASE_URL = ustr ''https://api.weather.gov''"

definition alertsUrl :: "jsstring \<Rightarrow> jsstring" where
  "alertsUrl state = API_BASE_URL @ ustr ''/alerts/active?area='' @ state"

definition apiErrorMessage :: "response \<Rightarrow> jsstring" where
  "apiErrorMessage r =
     ustr ''API Error: '' @ numberToString (status r) @ ustr '' '' @ statusText r"

text \<open>The \<open>catch\<close> block of \<open>fetchWeatherAlerts\<close>: log the message, throw the error again.\<close>

definition fetchCatch :: "host \<Rightarrow> jserror \<Rightarrow> world \<Rightarrow> alertData jsprop promise \<times> world" where
  "fetchCatch h e w =
     (Rejected e, w\<lparr>console := console w @ [ConsoleLog ''Error:'' (LoggedString (message h e))]\<rparr>)"

definition fetchWeatherAlerts ::
  "host \<Rightarrow> network \<Rightarrow> jsstring \<Rightarrow> world \<Rightarrow> alertData jsprop promise \<times> world" where
  "fetchWeatherAlerts h net state w =
     (let url = alertsUrl state;
          w1 = w\<lparr>requests := requests w @ [url]\<rparr>
      in case net url of
           Pending \<Rightarrow> (Pending, w1)
         | Rejected e \<Rightarrow> fetchCatch h e w1
         | Fulfilled r \<Rightarrow>
             if \<not> ok r then fetchCatch h (Error (apiErrorMessage r)) w1
             else (case json r of
                     Pending \<Rightarrow> (Pending, w1)
                   | Rejected e \<Rightarrow> fetchCatch h e w1
                   | Fulfilled data \<Rightarrow>
                       (Fulfilled data,
                        w1\<lparr>console := console w1 @ [ConsoleLog ''Fetched data:'' (LoggedData data)]\<rparr>)))"

section \<open>Presenter\<close>

text \<open>\<open>x || d\<close> for a string property \<open>x\<close>: the empty string is falsy, as are \<open>undefined\<close> and \<open>null\<close>.\<close>

fun orDefault :: "jsstring jsprop \<Rightarrow> jsstring \<Rightarrow> jsstring" where
  "orDefault (Value s) d = (if s = [] then d else s)"
| "orDefault Undefined d = d"
| "orDefault Null d = d"

text \<open>\<open>p?.headline\<close>: \<open>undefined\<close> when \<open>p\<close> is \<open>undefined\<close> or \<open>null\<close>.\<close>

fun optHeadline :: "alert_properties jsprop \<Rightarrow> jsstring jsprop" where
  "optHeadline (Value p) = headline p"
| "optHeadline Undefined = Undefined"
| "optHeadline Null = Undefined"

definition noHeadline :: jsstring where
  "noHeadline = ustr ''No headline available''"

definition defaultTitle :: jsstring where
  "defaultTitle = ustr ''Current watches, warnings, and advisories''"

text \<open>
  The body of the \<open>forEach\<close> callback up to the headline: reading \<open>alert.properties\<close>
  raises when the entry itself is \<open>null\<close> or \<open>undefined\<close>.
\<close>

fun headlineOf :: "alert jsprop \<Rightarrow> jserror + jsstring" where
  "headlineOf (Value a) = Inr (orDefault (optHeadline (properties a)) noHeadline)"
| "headlineOf Undefined = Inl (TypeError (ReadOfNullish IsUndefined ''properties''))"
| "headlineOf Null = Inl (TypeError (ReadOfNullish IsNull ''properties''))"

definition listItem :: "jsstring \<Rightarrow> node" where
  "listItem hl = Element ''li'' [] (setTextContent hl)"

text \<open>
  \<open>data.features.forEach\<close>: the items appended to the list so far are the accumulator;
  an exception in the callback ends the loop.
\<close>

fun forEachAlert :: "alert jsprop list \<Rightarrow> node list \<Rightarrow> jserror + node list" where
  "forEachAlert [] items = Inr items"
| "forEachAlert (a # as) items =
     (case headlineOf a of
        Inl e \<Rightarrow> Inl e
      | Inr hl \<Rightarrow> forEachAlert as (items @ [listItem hl]))"

definition alertCountOf :: "alertData \<Rightarrow> nat" where
  "alertCountOf d = (case features d of Value fs \<Rightarrow> length fs | Undefined \<Rightarrow> 0 | Null \<Rightarrow> 0)"

definition summaryText :: "alertData \<Rightarrow> jsstring" where
  "summaryText d =
     orDefault (title d) defaultTitle @ ustr '': '' @ numberToString (alertCountOf d)"

definition displayAlerts :: "alertData jsprop \<Rightarrow> world \<Rightarrow> (jserror + unit) \<times> world" where
  "displayAlerts data w =
     (case alertsDisplay w of
        None \<Rightarrow>
          (Inr (), w\<lparr>console := console w @ [ConsoleError ''Alerts display element not found'']\<rparr>)
      | Some old \<Rightarrow>
          let w1 = w\<lparr>alertsDisplay := Some []\<rparr> in
          (case data of
             Undefined \<Rightarrow> (Inl (TypeError (ReadOfNullish IsUndefined ''title'')), w1)
           | Null \<Rightarrow> (Inl (TypeError (ReadOfNullish IsNull ''title'')), w1)
           | Value d \<Rightarrow>
               let summaryMessage = Element ''p'' ''summary-message'' (setTextContent (summaryText d));
                   w2 = w1\<lparr>alertsDisplay := Some [summaryMessage]\<rparr>
               in (case features d of
                     Value fs \<Rightarrow>
                       if length fs > 0 then
                         (case forEachAlert fs [] of
                            Inl e \<Rightarrow> (Inl e, w2)
                          | Inr items \<Rightarrow>
                              (Inr (),
                               w2\<lparr>alertsDisplay :=
                                    Some [summaryMessage, Element ''ul'' ''alerts-list'' items]\<rparr>))
                       else (Inr (), w2)
                   | Undefined \<Rightarrow> (Inr (), w2)
                   | Null \<Rightarrow> (Inr (), w2))))"

text \<open>\<open>classList.add\<close> and \<open>classList.remove\<close> of one token.\<close>

definition classList_add :: "jsstring \<Rightarrow> jsstring list \<Rightarrow> jsstring list" where
  "classList_add t cs = (if t \<in> set cs then cs else cs @ [t])"

definition classList_remove :: "jsstring \<Rightarrow> jsstring list \<Rightarrow> jsstring list" where
  "classList_remove t cs = filter (\<lambda>c. c \<noteq> t) cs"

definition displayError :: "jsstring \<Rightarrow> world \<Rightarrow> world" where
  "displayError msg w =
     (case errorMessage w of
        None \<Rightarrow> w\<lparr>console := console w @ [ConsoleError ''Error message element not found'']\<rparr>
      | Some errorDiv \<Rightarrow>
          w\<lparr>errorMessage :=
              Some (errorDiv\<lparr>errorText := msg,
                             classList := classList_remove (ustr ''hidden'') (classList errorDiv)\<rparr>)\<rparr>)"

definition clearError :: "world \<Rightarrow> world" where
  "clearError w =
     (case errorMessage w of
        None \<Rightarrow> w
      | Some errorDiv \<Rightarrow>
          w\<lparr>errorMessage :=
              Some (errorDiv\<lparr>errorText := [],
                             classList := classList_add (ustr ''hidden'') (classList errorDiv)\<rparr>)\<rparr>)"

definition clearInput :: "world \<Rightarrow> world" where
  "clearInput w =
     (case stateInput w of
        None \<Rightarrow> w
      | Some v \<Rightarrow> w\<lparr>stateInput := Some []\<rparr>)"

section \<open>The trigger handler\<close>

text \<open>
  The handler either runs to its end or stays suspended at an \<open>await\<close> whose promise
  never settles. One invocation is followed from its start to that point; no other
  event handler changes the page while the request is in flight.
\<close>

datatype completion = Completed | Suspended

definition enterBusy :: "world \<Rightarrow> world" where
  "enterBusy w =
     (case fetchButton w of
        None \<Rightarrow> w
      | Some b \<Rightarrow> w\<lparr>fetchButton := Some (b\<lparr>disabled := True, buttonText := ustr ''Loading...''\<rparr>)\<rparr>)"

text \<open>The \<open>finally\<close> block.\<close>

definition exitBusy :: "world \<Rightarrow> world" where
  "exitBusy w =
     (case fetchButton w of
        None \<Rightarrow> w
      | Some b \<Rightarrow>
          w\<lparr>fetchButton := Some (b\<lparr>disabled := False, buttonText := ustr ''Get Weather Alerts''\<rparr>)\<rparr>)"

text \<open>The \<open>catch\<close> block.\<close>

definition handlerCatch :: "host \<Rightarrow> jserror \<Rightarrow> world \<Rightarrow> world" where
  "handlerCatch h e w = displayError (message h e) w"

text \<open>
  The \<open>try\<close> block with its \<open>catch\<close>: \<open>Suspended\<close> when the request never settles,
  otherwise \<open>Completed\<close> with the world the \<open>finally\<close> block starts from.
\<close>

definition tryBlock :: "host \<Rightarrow> network \<Rightarrow> jsstring \<Rightarrow> world \<Rightarrow> completion \<times> world" where
  "tryBlock h net stateValue w =
     (case validateStateInput h (VStr stateValue) of
        Inl e \<Rightarrow> (Completed, handlerCatch h e w)
      | Inr u \<Rightarrow>
          (case fetchWeatherAlerts h net (normalizedState h stateValue) w of
             (Pending, w1) \<Rightarrow> (Suspended, w1)
           | (Rejected e, w1) \<Rightarrow> (Completed, handlerCatch h e w1)
           | (Fulfilled data, w1) \<Rightarrow>
               (case displayAlerts data w1 of
                  (Inl e, w2) \<Rightarrow> (Completed, handlerCatch h e w2)
                | (Inr u', w2) \<Rightarrow> (Completed, clearInput w2))))"

definition handleGetAlerts :: "host \<Rightarrow> network \<Rightarrow> world \<Rightarrow> completion \<times> world" where
  "handleGetAlerts h net w =
     (case stateInput w of
        None \<Rightarrow> (Completed, w\<lparr>console := console w @ [ConsoleError ''State input element not found'']\<rparr>)
      | Some stateValue \<Rightarrow>
          (case tryBlock h net stateValue (enterBusy (clearError w)) of
             (Suspended, w') \<Rightarrow> (Suspended, w')
           | (Completed, w') \<Rightarrow> (Completed, exitBusy w')))"

section \<open>Example page, network and data\<close>

text \<open>
  A page with all four elements, the input holding \<open>" ca "\<close>; a network that answers
  every request with one response; the two-alert body of the specification's examples.
\<close>

definition examplePage :: world where
  "examplePage =
     \<lparr>alertsDisplay = Some [],
      errorMessage = Some \<lparr>errorText = [], classList = [ustr ''hidden'']\<rparr>,
      stateInput = Some (ustr '' ca ''),
      fetchButton = Some \<lparr>disabled = False, buttonText = ustr ''Get Weather Alerts''\<rparr>,
      console = [],
      requests = []\<rparr>"

definition respond :: "response \<Rightarrow> network" where
  "respond r = (\<lambda>url. Fulfilled r)"

definition twoAlerts :: alertData where
  "twoAlerts =
     \<lparr>title = Value (ustr ''T''),
      features = Value [Value \<lparr>properties = Value \<lparr>headline = Value (ustr ''H1'')\<rparr>\<rparr>,
                        Value \<lparr>properties = Value \<lparr>headline = Undefined\<rparr>\<rparr>]\<rparr>"

text \<open>A body whose \<open>features\<close> array holds \<open>null\<close>: rendering it raises.\<close>

definition nullEntryBody :: "alertData jsprop" where
  "nullEntryBody = Value \<lparr>title = Undefined, features = Value [Null]\<rparr>"

section \<open>Basic facts\<close>

lemma ustr_Nil [simp]: "ustr [] = []"
  by (simp add: ustr_def)
lemma ustr_Cons [simp]: "ustr (c # cs) = of_char c # ustr cs"
  by (simp add: ustr_def)

lemma regex_AZ2_test_iff:
  "regex_AZ2_test t \<longleftrightarrow> (\<exists>a b. t = [a, b] \<and> isUpperAZ a \<and> isUpperAZ b)"
  by (cases t rule: regex_AZ2_test.cases) auto

lemma validateStateInput_string:
  "validateStateInput h (VStr s) =
     (if trim s = [] then Inl (Error emptyInputMessage)
      else if regex_AZ2_test (toUpperCase h (trim s)) then Inr (VBool True)
      else Inl (Error wrongFormatMessage))"
  by (auto simp: validateStateInput_def Let_def trim_def regex_AZ2_test_iff)

lemma clearError_frame [simp]:
  "stateInput (clearError w) = stateInput w"
  "fetchButton (clearError w) = fetchButton w"
  "alertsDisplay (clearError w) = alertsDisplay w"
  "console (clearError w) = console w"
  "requests (clearError w) = requests w"
  by (simp_all add: clearError_def split: option.split)

lemma enterBusy_frame [simp]:
  "stateInput (enterBusy w) = stateInput w"
  "errorMessage (enterBusy w) = errorMessage w"
  "alertsDisplay (enterBusy w) = alertsDisplay w"
  "console (enterBusy w) = console w"
  "requests (enterBusy w) = requests w"
  by (simp_all add: enterBusy_def split: option.split)

lemma exitBusy_frame [simp]:
  "stateInput (exitBusy w) = stateInput w"
  "errorMessage (exitBusy w) = errorMessage w"
  "alertsDisplay (exitBusy w) = alertsDisplay w"
  "console (exitBusy w) = console w"
  "requests (exitBusy w) = requests w"
  by (simp_all add: exitBusy_def split: option.split)

lemma displayError_frame [simp]:
  "stateInput (displayError m w) = stateInput w"
  "fetchButton (displayError m w) = fetchButton w"
  "alertsDisplay (displayError m w) = alertsDisplay w"
  "requests (displayError m w) = requests w"
  by (simp_all add: displayError_def split: option.split)

lemma clearInput_frame [simp]:
  "errorMessage (clearInput w) = errorMessage w"
  "fetchButton (clearInput w) = fetchButton w"
  "alertsDisplay (clearInput w) = alertsDisplay w"
  "console (clearInput w) = console w"
  "requests (clearInput w) = requests w"
  by (simp_all add: clearInput_def split: option.split)

lemma displayAlerts_frame [simp]:
  "stateInput (snd (displayAlerts d w)) = stateInput w"
  "fetchButton (snd (displayAlerts d w)) = fetchButton w"
  "errorMessage (snd (displayAlerts d w)) = errorMessage w"
  "requests (snd (displayAlerts d w)) = requests w"
  by (simp_all add: displayAlerts_def Let_def split: option.split jsprop.split sum.split)

lemma fetchWeatherAlerts_frame [simp]:
  "stateInput (snd (fetchWeatherAlerts h net s w)) = stateInput w"
  "fetchButton (snd (fetchWeatherAlerts h net s w)) = fetchButton w"
  "errorMessage (snd (fetchWeatherAlerts h net s w)) = errorMessage w"
  "alertsDisplay (snd (fetchWeatherAlerts h net s w)) = alertsDisplay w"
  "requests (snd (fetchWeatherAlerts h net s w)) = requests w @ [alertsUrl s]"
  by (simp_all add: fetchWeatherAlerts_def fetchCatch_def Let_def split: promise.split)

lemma fetchButton_enterBusy:
  "fetchButton (enterBusy w) =
     map_option (\<lambda>b. b\<lparr>disabled := True, buttonText := ustr ''Loading...''\<rparr>) (fetchButton w)"
  by (simp add: enterBusy_def split: option.split)

lemma fetchButton_exitBusy:
  "fetchButton (exitBusy w) =
     map_option (\<lambda>b. b\<lparr>disabled := False, buttonText := ustr ''Get Weather Alerts''\<rparr>) (fetchButton w)"
  by (simp add: exitBusy_def split: option.split)

text \<open>The world in which the try block ends, by cases.\<close>

lemma tryBlock_cases:
  "tryBlock h net v w =
    (case validateStateInput h (VStr v) of
       Inl e \<Rightarrow> (Completed, displayError (message h e) w)
     | Inr u \<Rightarrow>
        (case fst (fetchWeatherAlerts h net (normalizedState h v) w) of
           Pending \<Rightarrow> (Suspended, snd (fetchWeatherAlerts h net (normalizedState h v) w))
         | Rejected e \<Rightarrow> (Completed, displayError (message h e) (snd (fetchWeatherAlerts h net (normalizedState h v) w)))
         | Fulfilled data \<Rightarrow>
            (case fst (displayAlerts data (snd (fetchWeatherAlerts h net (normalizedState h v) w))) of
               Inl e \<Rightarrow> (Completed, displayError (message h e) (snd (displayAlerts data (snd (fetchWeatherAlerts h net (normalizedState h v) w)))))
             | Inr u' \<Rightarrow> (Completed, clearInput (snd (displayAlerts data (snd (fetchWeatherAlerts h net (normalizedState h v) w))))))))"
  by (simp add: tryBlock_def handlerCatch_def split: sum.split prod.split promise.split)

lemma tryBlock_fetchButton: "fetchButton (snd (tryBlock h net v w)) = fetchButton w"
  by (simp add: tryBlock_cases split: sum.split promise.split)

lemma tryBlock_requests:
  "requests (snd (tryBlock h net v w)) =
     (case validateStateInput h (VStr v) of Inl e \<Rightarrow> requests w
      | Inr u \<Rightarrow> requests w @ [alertsUrl (normalizedState h v)])"
  by (simp add: tryBlock_cases split: sum.split promise.split)

lemma handle_button:
  assumes "stateInput w = Some v" "fetchButton w = Some b"
  shows "fetchButton (snd (handleGetAlerts h net w)) =
     Some (if fst (handleGetAlerts h net w) = Completed
           then \<lparr>disabled = False, buttonText = ustr ''Get Weather Alerts''\<rparr>
           else \<lparr>disabled = True, buttonText = ustr ''Loading...''\<rparr>)"
  using assms tryBlock_fetchButton[of h net v "enterBusy (clearError w)"]
  by (auto simp: handleGetAlerts_def fetchButton_exitBusy fetchButton_enterBusy
      split: prod.split completion.split)

lemma isUpperAZ_not_ws: "isUpperAZ c \<Longrightarrow> \<not> isWhiteSpace c"
  unfolding isUpperAZ_def isWhiteSpace_def
  by (auto simp: word_le_nat_alt)

lemma trim_fixes_AZ2: "regex_AZ2_test t \<Longrightarrow> trim t = t"
  by (auto simp: regex_AZ2_test_iff trim_def isUpperAZ_not_ws)

lemma upper_fixes_AZ2: "upperCaseLaws h \<Longrightarrow> regex_AZ2_test t \<Longrightarrow> toUpperCase h t = t"
  by (auto simp: regex_AZ2_test_iff upperCaseLaws_def)

lemma regex_nonempty: "upperCaseLaws h \<Longrightarrow> regex_AZ2_test (toUpperCase h t) \<Longrightarrow> t \<noteq> []"
  by (auto simp: upperCaseLaws_def)

lemma asciiHost_laws: "upperCaseLaws asciiHost"
  unfolding upperCaseLaws_def asciiHost_def asciiUpper_def isUpperAZ_def
  by (auto simp: word_le_nat_alt)

lemma messages_differ: "emptyInputMessage \<noteq> wrongFormatMessage"
  by (simp add: emptyInputMessage_def wrongFormatMessage_def)

lemmas example_defs = examplePage_def respond_def asciiHost_def asciiUpper_def trim_def
  isWhiteSpace_def isUpperAZ_def emptyInputMessage_def wrongFormatMessage_def
  normalizedState_def alertsUrl_def API_BASE_URL_def

lemma handle_requests:
  assumes "stateInput w = Some v"
  shows "requests (snd (handleGetAlerts h net w)) =
     (case validateStateInput h (VStr v) of Inl e \<Rightarrow> requests w
      | Inr u \<Rightarrow> requests w @ [alertsUrl (normalizedState h v)])"
  using assms tryBlock_requests[of h net v "enterBusy (clearError w)"]
  by (auto simp: handleGetAlerts_def split: prod.split completion.split sum.split)

lemma orDefault_nonempty: "d \<noteq> [] \<Longrightarrow> orDefault x d \<noteq> []"
  by (cases x) auto

lemma noHeadline_nonempty: "noHeadline \<noteq> []"
  by (simp add: noHeadline_def)

lemma forEachAlert_objects:
  "forEachAlert (map Value as) items =
     Inr (items @ map (\<lambda>a. listItem (orDefault (optHeadline (properties a)) noHeadline)) as)"
  by (induction as arbitrary: items) simp_all

lemma listItem_headline:
  "listItem (orDefault (optHeadline (properties a)) noHeadline) =
     Element ''li'' [] [Text (orDefault (optHeadline (properties a)) noHeadline)]"
  by (simp add: listItem_def setTextContent_def orDefault_nonempty noHeadline_nonempty)

lemma summaryText_nonempty: "summaryText d \<noteq> []"
  by (simp add: summaryText_def)

lemma displayAlerts_objects:
  assumes "alertsDisplay w = Some old"
    and "features d = Value (map Value as)"
  shows "displayAlerts (Value d) w =
     (Inr (), w\<lparr>alertsDisplay := Some
        (Element ''p'' ''summary-message'' [Text (summaryText d)] #
         (if as = [] then []
          else [Element ''ul'' ''alerts-list''
                  (map (\<lambda>a. Element ''li'' []
                     [Text (orDefault (optHeadline (properties a)) noHeadline)]) as)]))\<rparr>)"
  using assms
  by (simp add: displayAlerts_def Let_def forEachAlert_objects listItem_headline
      setTextContent_def summaryText_nonempty)

lemma displayAlerts_no_features:
  assumes "alertsDisplay w = Some old"
    and "features d = Undefined \<or> features d = Null"
  shows "displayAlerts (Value d) w =
     (Inr (), w\<lparr>alertsDisplay := Some [Element ''p'' ''summary-message'' [Text (summaryText d)]]\<rparr>)"
  using assms
  by (auto simp: displayAlerts_def Let_def setTextContent_def summaryText_nonempty)

lemma tryBlock_Suspended_iff:
  "fst (tryBlock h net v w) = Suspended \<longleftrightarrow>
     (\<exists>u. validateStateInput h (VStr v) = Inr u) \<and>
     fst (fetchWeatherAlerts h net (normalizedState h v) w) = Pending"
  by (simp add: tryBlock_cases split: sum.split promise.split)

lemma fetch_Pending_iff:
  "fst (fetchWeatherAlerts h net s w) = Pending \<longleftrightarrow>
     net (alertsUrl s) = Pending \<or> (\<exists>r. net (alertsUrl s) = Fulfilled r \<and> ok r \<and> json r = Pending)"
  by (auto simp: fetchWeatherAlerts_def fetchCatch_def Let_def split: promise.split)

lemma handle_fst:
  assumes "stateInput w = Some v"
  shows "fst (handleGetAlerts h net w) = fst (tryBlock h net v (enterBusy (clearError w)))"
  using assms by (simp add: handleGetAlerts_def split: prod.split completion.split)

lemma handle_snd:
  assumes "stateInput w = Some v"
  shows "snd (handleGetAlerts h net w) =
     (if fst (tryBlock h net v (enterBusy (clearError w))) = Completed
      then exitBusy (snd (tryBlock h net v (enterBusy (clearError w))))
      else snd (tryBlock h net v (enterBusy (clearError w))))"
  using assms by (simp add: handleGetAlerts_def split: prod.split completion.split)



section \<open>Validator: results\<close>

text \<open>
  Claim C1. The claim: for every raw input that, trimmed and uppercased, matches
  \<open>^[A-Z]{2}$\<close>, \<open>validateStateInput\<close> succeeds and returns the trimmed, uppercased code;
  \<open>validate(" ca ")\<close> returns \<open>"CA"\<close>. On the code this fails: at \<open>" ca "\<close> the
  function returns \<open>true\<close>, not \<open>"CA"\<close>.
\<close>

theorem validate_returns_code_counterexample:
  "regex_AZ2_test (toUpperCase asciiHost (trim (ustr '' ca ''))) \<and>
   validateStateInput asciiHost (VStr (ustr '' ca '')) = Inr (VBool True) \<and>
   validateStateInput asciiHost (VStr (ustr '' ca '')) \<noteq> Inr (VStr (ustr ''CA''))"
  by (simp add: validateStateInput_string example_defs)

text \<open>
  Claim C1, as amended. For every raw input that, trimmed and uppercased, matches
  \<open>^[A-Z]{2}$\<close>, \<open>validateStateInput\<close> succeeds and returns \<open>true\<close>; the trimmed,
  uppercased code is computed by \<open>handleGetAlerts\<close> itself, which requests the alerts of
  that code.
\<close>

theorem validate_accepts_two_letters:
  assumes "upperCaseLaws h"
    and "regex_AZ2_test (toUpperCase h (trim s))"
    and "stateInput w = Some s"
  shows "validateStateInput h (VStr s) = Inr (VBool True) \<and>
         requests (snd (handleGetAlerts h net w)) =
           requests w @ [ustr ''https://api.weather.gov/alerts/active?area='' @ toUpperCase h (trim s)]"
proof -
  have ne: "trim s \<noteq> []"
    using assms(1,2) by (rule regex_nonempty)
  then have v: "validateStateInput h (VStr s) = Inr (VBool True)"
    using assms(2) by (simp add: validateStateInput_string)
  have "requests (snd (handleGetAlerts h net w)) = requests w @ [alertsUrl (normalizedState h s)]"
    using handle_requests[OF assms(3), of h net] v by simp
  then show ?thesis
    using v by (simp add: alertsUrl_def normalizedState_def API_BASE_URL_def ustr_def)
qed

theorem validate_accepts_two_letters_witness:
  "upperCaseLaws asciiHost \<and>
   regex_AZ2_test (toUpperCase asciiHost (trim (ustr '' ca ''))) \<and>
   stateInput examplePage = Some (ustr '' ca '') \<and>
   validateStateInput asciiHost (VStr (ustr '' ca '')) = Inr (VBool True) \<and>
   requests (snd (handleGetAlerts asciiHost (\<lambda>url. Pending) examplePage)) =
     [ustr ''https://api.weather.gov/alerts/active?area=CA'']"
proof -
  have a: "regex_AZ2_test (toUpperCase asciiHost (trim (ustr '' ca '')))"
    by (simp add: example_defs)
  have b: "stateInput examplePage = Some (ustr '' ca '')"
    by (simp add: examplePage_def)
  have c: "toUpperCase asciiHost (trim (ustr '' ca '')) = ustr ''CA''"
    by (simp add: example_defs)
  have d: "requests examplePage = []"
    by (simp add: examplePage_def)
  show ?thesis
    using validate_accepts_two_letters[OF asciiHost_laws a b, of "\<lambda>url. Pending"] asciiHost_laws a b
    unfolding c d by simp
qed

text \<open>
  Claim C2. For every raw input string: the empty-input error is thrown when the trimmed
  input is empty; the wrong-format error is thrown when the trimmed, uppercased input is
  not empty and does not match \<open>^[A-Z]{2}$\<close>; nothing is thrown when it matches; and an
  error is thrown exactly when it does not match. The two errors differ.
\<close>

theorem validate_throws_iff_invalid:
  assumes "upperCaseLaws h"
  shows "(trim s = [] \<longrightarrow> validateStateInput h (VStr s) = Inl (Error emptyInputMessage)) \<and>
         (toUpperCase h (trim s) \<noteq> [] \<and> \<not> regex_AZ2_test (toUpperCase h (trim s)) \<longrightarrow>
            validateStateInput h (VStr s) = Inl (Error wrongFormatMessage)) \<and>
         (regex_AZ2_test (toUpperCase h (trim s)) \<longrightarrow>
            validateStateInput h (VStr s) = Inr (VBool True)) \<and>
         ((\<exists>e. validateStateInput h (VStr s) = Inl e) \<longleftrightarrow>
            \<not> regex_AZ2_test (toUpperCase h (trim s))) \<and>
         emptyInputMessage \<noteq> wrongFormatMessage"
proof -
  have e: "toUpperCase h [] = []"
    using assms by (simp add: upperCaseLaws_def)
  show ?thesis
    using e messages_differ by (auto simp: validateStateInput_string)
qed

theorem validate_throws_iff_invalid_witness:
  "upperCaseLaws asciiHost \<and>
   validateStateInput asciiHost (VStr (ustr ''   '')) = Inl (Error (ustr ''Please enter a state abbreviation'')) \<and>
   validateStateInput asciiHost (VStr (ustr ''c1'')) = Inl (Error (ustr ''State abbreviation must be exactly 2 letters'')) \<and>
   validateStateInput asciiHost (VStr (ustr '' ca '')) = Inr (VBool True)"
proof -
  have 1: "trim (ustr ''   '') = []"
    by (simp add: example_defs)
  have 2: "toUpperCase asciiHost (trim (ustr ''c1'')) \<noteq> [] \<and>
           \<not> regex_AZ2_test (toUpperCase asciiHost (trim (ustr ''c1'')))"
    by (simp add: example_defs)
  have 3: "regex_AZ2_test (toUpperCase asciiHost (trim (ustr '' ca '')))"
    by (simp add: example_defs)
  show ?thesis
    using validate_throws_iff_invalid[OF asciiHost_laws, of "ustr ''   ''"]
      validate_throws_iff_invalid[OF asciiHost_laws, of "ustr ''c1''"]
      validate_throws_iff_invalid[OF asciiHost_laws, of "ustr '' ca ''"]
      asciiHost_laws 1 2 3
    by (simp add: emptyInputMessage_def wrongFormatMessage_def)
qed

text \<open>
  Claim C9. The claim: validating the value that a successful validation returned
  succeeds again with the same value. On the code this fails: the value returned is
  \<open>true\<close>, and \<open>validateStateInput(true)\<close> raises a type error, \<open>true\<close> having no
  \<open>trim\<close> method.
\<close>

theorem validate_idempotent_counterexample:
  "validateStateInput asciiHost (VStr (ustr ''CA'')) = Inr (VBool True) \<and>
   validateStateInput asciiHost (VBool True) = Inl (TypeError (NotAFunction ''state.trim'')) \<and>
   validateStateInput asciiHost (VBool True) \<noteq> Inr (VBool True)"
  by (simp add: validateStateInput_string example_defs) (simp add: validateStateInput_def)

text \<open>
  Claim C9, as amended. For every input on which \<open>validateStateInput\<close> succeeds, it
  succeeds again, with the same value, on the normalized code (the input trimmed and
  uppercased, as \<open>handleGetAlerts\<close> computes it), and normalizing that code again yields
  the same two-letter code.
\<close>

theorem normalized_code_validates_again:
  assumes "upperCaseLaws h"
    and "validateStateInput h (VStr s) = Inr v"
  shows "validateStateInput h (VStr (normalizedState h s)) = Inr v \<and>
         normalizedState h (normalizedState h s) = normalizedState h s \<and>
         regex_AZ2_test (normalizedState h s)"
proof -
  have m: "regex_AZ2_test (toUpperCase h (trim s))" and v: "v = VBool True"
    using assms(2) by (auto simp: validateStateInput_string split: if_splits)
  have idem: "toUpperCase h (trim (toUpperCase h (trim s))) = toUpperCase h (trim s)"
    using m assms(1) by (simp add: trim_fixes_AZ2 upper_fixes_AZ2)
  have ne: "toUpperCase h (trim s) \<noteq> []"
    using m by auto
  show ?thesis
    using m v idem ne by (simp add: normalizedState_def validateStateInput_string trim_fixes_AZ2)
qed

theorem normalized_code_validates_again_witness:
  "upperCaseLaws asciiHost \<and>
   validateStateInput asciiHost (VStr (ustr '' ca '')) = Inr (VBool True) \<and>
   normalizedState asciiHost (ustr '' ca '') = ustr ''CA'' \<and>
   validateStateInput asciiHost (VStr (ustr ''CA'')) = Inr (VBool True) \<and>
   normalizedState asciiHost (ustr ''CA'') = ustr ''CA''"
proof -
  have a: "validateStateInput asciiHost (VStr (ustr '' ca '')) = Inr (VBool True)"
    by (simp add: validateStateInput_string example_defs)
  have n: "normalizedState asciiHost (ustr '' ca '') = ustr ''CA''"
    by (simp add: example_defs)
  show ?thesis
    using normalized_code_validates_again[OF asciiHost_laws a] asciiHost_laws a
    unfolding n by simp
qed

section \<open>Presenter: results\<close>

text \<open>
  Claim C3. The claim: \<open>displayAlerts\<close> writes the summary \<open>"{title}: {count}"\<close>, the
  title being the response's title field, or the default title when the field is
  absent. On the code this fails for a title that is present and empty: the summary
  then carries the default title, not the empty one.
\<close>

theorem summary_title_counterexample:
  "alertsDisplay (snd (displayAlerts (Value \<lparr>title = Value [], features = Undefined\<rparr>) examplePage)) =
     Some [Element ''p'' ''summary-message''
             [Text (ustr ''Current watches, warnings, and advisories: 0'')]] \<and>
   alertsDisplay (snd (displayAlerts (Value \<lparr>title = Value [], features = Undefined\<rparr>) examplePage)) \<noteq>
     Some [Element ''p'' ''summary-message'' [Text ([] @ ustr '': 0'')]]"
  by (simp add: displayAlerts_def examplePage_def Let_def setTextContent_def summaryText_def
      alertCountOf_def defaultTitle_def numberToString.simps)

text \<open>
  Claim C3, as amended. For every response object whose \<open>features\<close>, when present, is a
  sequence of alert objects, and a page with the alerts display: the display then holds
  the summary line \<open>"{title}: {count}"\<close>, the title being the response's title when that
  is a non-empty string and \<open>"Current watches, warnings, and advisories"\<close> when it is
  absent, \<open>null\<close> or empty, the count being the length of \<open>features\<close>, or 0 when that is
  absent; and a list element follows exactly when the count is positive, with one item
  per alert in the order of the response, each the alert's headline when that is a
  non-empty string and \<open>"No headline available"\<close> when the headline, or the \<open>properties\<close>
  object, is absent, \<open>null\<close>, or the headline empty.
\<close>

theorem displayAlerts_renders:
  assumes "alertsDisplay w = Some old"
    and "features d = Value (map Value as) \<or>
         (features d = Undefined \<or> features d = Null) \<and> as = []"
  shows "displayAlerts (Value d) w =
     (Inr (), w\<lparr>alertsDisplay := Some
        (Element ''p'' ''summary-message''
           [Text ((case title d of
                     Value t \<Rightarrow> if t = [] then ustr ''Current watches, warnings, and advisories'' else t
                   | Undefined \<Rightarrow> ustr ''Current watches, warnings, and advisories''
                   | Null \<Rightarrow> ustr ''Current watches, warnings, and advisories'')
                  @ ustr '': '' @ numberToString (length as))] #
         (if 0 < length as
          then [Element ''ul'' ''alerts-list''
                  (map (\<lambda>a. Element ''li'' []
                     [Text (case properties a of
                              Value p \<Rightarrow>
                                (case headline p of
                                   Value hl \<Rightarrow> if hl = [] then ustr ''No headline available'' else hl
                                 | Undefined \<Rightarrow> ustr ''No headline available''
                                 | Null \<Rightarrow> ustr ''No headline available'')
                            | Undefined \<Rightarrow> ustr ''No headline available''
                            | Null \<Rightarrow> ustr ''No headline available'')]) as)]
          else []))\<rparr>)"
proof -
  have t: "orDefault (title d) defaultTitle =
      (case title d of
         Value t \<Rightarrow> if t = [] then ustr ''Current watches, warnings, and advisories'' else t
       | Undefined \<Rightarrow> ustr ''Current watches, warnings, and advisories''
       | Null \<Rightarrow> ustr ''Current watches, warnings, and advisories'')"
    by (simp add: defaultTitle_def split: jsprop.split)
  have n: "alertCountOf d = length as"
    using assms(2) by (auto simp: alertCountOf_def)
  have s: "summaryText d =
      (case title d of
         Value t \<Rightarrow> if t = [] then ustr ''Current watches, warnings, and advisories'' else t
       | Undefined \<Rightarrow> ustr ''Current watches, warnings, and advisories''
       | Null \<Rightarrow> ustr ''Current watches, warnings, and advisories'')
      @ ustr '': '' @ numberToString (length as)"
    unfolding summaryText_def t n ..
  have i: "orDefault (optHeadline (properties a)) noHeadline =
      (case properties a of
         Value p \<Rightarrow>
           (case headline p of
              Value hl \<Rightarrow> if hl = [] then ustr ''No headline available'' else hl
            | Undefined \<Rightarrow> ustr ''No headline available''
            | Null \<Rightarrow> ustr ''No headline available'')
       | Undefined \<Rightarrow> ustr ''No headline available''
       | Null \<Rightarrow> ustr ''No headline available'')" for a
    by (simp add: noHeadline_def split: jsprop.split)
  from assms(2) show ?thesis
  proof
    assume f: "features d = Value (map Value as)"
    show ?thesis
      unfolding displayAlerts_objects[OF assms(1) f] s i by simp
  next
    assume f: "(features d = Undefined \<or> features d = Null) \<and> as = []"
    then have e: "as = []" and f': "features d = Undefined \<or> features d = Null"
      by simp_all
    show ?thesis
      unfolding displayAlerts_no_features[OF assms(1) f'] s e by simp
  qed
qed


theorem displayAlerts_renders_witness:
  "alertsDisplay examplePage = Some [] \<and>
   displayAlerts (Value twoAlerts) examplePage =
     (Inr (), examplePage\<lparr>alertsDisplay := Some
        [Element ''p'' ''summary-message'' [Text (ustr ''T: 2'')],
         Element ''ul'' ''alerts-list''
           [Element ''li'' [] [Text (ustr ''H1'')],
            Element ''li'' [] [Text (ustr ''No headline available'')]]]\<rparr>)"
proof -
  have a: "alertsDisplay examplePage = Some []"
    by (simp add: examplePage_def)
  have f: "features twoAlerts =
      Value (map Value [\<lparr>properties = Value \<lparr>headline = Value (ustr ''H1'')\<rparr>\<rparr>,
                        \<lparr>properties = Value \<lparr>headline = Undefined\<rparr>\<rparr>])"
    by (simp add: twoAlerts_def)
  have t: "title twoAlerts = Value (ustr ''T'')"
    by (simp add: twoAlerts_def)
  show ?thesis
    using a displayAlerts_renders[OF a disjI1[OF f]]
    by (simp add: t numberToString.simps)
qed

text \<open>
  Claim C10. The claim: for every entry of \<open>features\<close> whose \<open>properties\<close> field is absent
  or \<open>null\<close>, \<open>displayAlerts\<close> does not raise and renders the placeholder for that entry.
  On the code this fails when another entry of the array is \<open>null\<close>: for the body
  \<open>{"features":[{},null]}\<close> the first entry has no \<open>properties\<close>, yet \<open>displayAlerts\<close>
  raises at the second entry, and the display holds the summary line only, with no list
  and no placeholder.
\<close>

theorem missing_properties_counterexample:
  "properties \<lparr>properties = Undefined\<rparr> = Undefined \<and>
   displayAlerts
     (Value \<lparr>title = Undefined, features = Value [Value \<lparr>properties = Undefined\<rparr>, Null]\<rparr>)
     examplePage =
     (Inl (TypeError (ReadOfNullish IsNull ''properties'')),
      examplePage\<lparr>alertsDisplay := Some
        [Element ''p'' ''summary-message''
           [Text (ustr ''Current watches, warnings, and advisories: 2'')]]\<rparr>)"
  by (simp add: displayAlerts_def examplePage_def Let_def setTextContent_def summaryText_def
      alertCountOf_def defaultTitle_def noHeadline_def listItem_def numberToString.simps)

text \<open>
  Claim C10, as amended. On a page that has the alerts display, and for a \<open>features\<close>
  array all of whose entries are objects: for every entry whose \<open>properties\<close> field is
  absent or \<open>null\<close>, the callback of \<open>displayAlerts\<close> yields the placeholder for it
  without raising, and \<open>displayAlerts\<close> returns normally with the item
  \<open>"No headline available"\<close> at the position of that entry.
\<close>

theorem missing_properties_placeholder:
  assumes "alertsDisplay w = Some old"
    and "features d = Value (map Value as)"
    and "i < length as"
    and "properties (as ! i) = Undefined \<or> properties (as ! i) = Null"
  shows "headlineOf (Value (as ! i)) = Inr (ustr ''No headline available'') \<and>
         (\<exists>items. displayAlerts (Value d) w =
              (Inr (), w\<lparr>alertsDisplay := Some
                 [Element ''p'' ''summary-message'' [Text (summaryText d)],
                  Element ''ul'' ''alerts-list'' items]\<rparr>) \<and>
            length items = length as \<and>
            items ! i = Element ''li'' [] [Text (ustr ''No headline available'')])"
proof -
  have h: "orDefault (optHeadline (properties (as ! i))) noHeadline = ustr ''No headline available''"
    using assms(4) by (auto simp: noHeadline_def)
  have ne: "as \<noteq> []"
    using assms(3) by auto
  let ?items = "map (\<lambda>a. Element ''li'' []
      [Text (orDefault (optHeadline (properties a)) noHeadline)]) as"
  have 1: "headlineOf (Value (as ! i)) = Inr (ustr ''No headline available'')"
    using h by simp
  have 2: "displayAlerts (Value d) w =
      (Inr (), w\<lparr>alertsDisplay := Some
         [Element ''p'' ''summary-message'' [Text (summaryText d)],
          Element ''ul'' ''alerts-list'' ?items]\<rparr>)"
    using displayAlerts_objects[OF assms(1,2)] ne by simp
  have 3: "length ?items = length as"
    by simp
  have 4: "?items ! i = Element ''li'' [] [Text (ustr ''No headline available'')]"
    using assms(3) h by simp
  from 1 2 3 4 show ?thesis
    by blast
qed

theorem missing_properties_placeholder_witness:
  "alertsDisplay examplePage = Some [] \<and>
   properties ([\<lparr>properties = Undefined\<rparr>, \<lparr>properties = Null\<rparr>] ! 1) = Null \<and>
   headlineOf (Value \<lparr>properties = Null\<rparr>) = Inr (ustr ''No headline available'') \<and>
   (\<exists>items.
      displayAlerts
        (Value \<lparr>title = Undefined,
                features = Value [Value \<lparr>properties = Undefined\<rparr>, Value \<lparr>properties = Null\<rparr>]\<rparr>)
        examplePage =
        (Inr (), examplePage\<lparr>alertsDisplay := Some
           [Element ''p'' ''summary-message''
              [Text (ustr ''Current watches, warnings, and advisories: 2'')],
            Element ''ul'' ''alerts-list'' items]\<rparr>) \<and>
      length items = 2 \<and>
      items ! 1 = Element ''li'' [] [Text (ustr ''No headline available'')])"
proof -
  let ?as = "[\<lparr>properties = Undefined\<rparr>, \<lparr>properties = Null\<rparr>]"
  let ?d = "\<lparr>title = Undefined,
             features = Value [Value \<lparr>properties = Undefined\<rparr>, Value \<lparr>properties = Null\<rparr>]\<rparr>"
  have a: "alertsDisplay examplePage = Some []"
    by (simp add: examplePage_def)
  have f: "features ?d = Value (map Value ?as)"
    by simp
  have i: "(1::nat) < length ?as"
    by simp
  have p: "properties (?as ! 1) = Undefined \<or> properties (?as ! 1) = Null"
    by simp
  have s: "summaryText ?d = ustr ''Current watches, warnings, and advisories: 2''"
    by (simp add: summaryText_def alertCountOf_def defaultTitle_def numberToString.simps)
  show ?thesis
    using missing_properties_placeholder[OF a f i p] a
    unfolding s by (auto simp: numeral_2_eq_2)
qed

section \<open>AlertFetcher: results\<close>

text \<open>
  Claim C4. For every HTTP response that answers the request: \<open>fetchWeatherAlerts\<close>
  fails exactly when the status is outside 200 to 299 or \<open>response.json()\<close> rejects (the
  body is not valid JSON); outside 200 to 299 the error's message is
  \<open>"API Error: {status} {statusText}"\<close>; with a status from 200 to 299 and a body that
  parses, the parsed body is returned.
\<close>

theorem fetchWeatherAlerts_outcome:
  assumes "net (alertsUrl state) = Fulfilled r"
  shows "((\<exists>e. fst (fetchWeatherAlerts h net state w) = Rejected e) \<longleftrightarrow>
            \<not> (200 \<le> status r \<and> status r \<le> 299) \<or> (\<exists>e. json r = Rejected e)) \<and>
         (\<not> (200 \<le> status r \<and> status r \<le> 299) \<longrightarrow>
            fst (fetchWeatherAlerts h net state w) =
              Rejected (Error (ustr ''API Error: '' @ numberToString (status r) @ ustr '' '' @ statusText r))) \<and>
         (\<forall>data. 200 \<le> status r \<and> status r \<le> 299 \<and> json r = Fulfilled data \<longrightarrow>
            fst (fetchWeatherAlerts h net state w) = Fulfilled data)"
  using assms
  by (auto simp: fetchWeatherAlerts_def fetchCatch_def Let_def ok_def apiErrorMessage_def
      split: promise.split)

theorem fetchWeatherAlerts_outcome_witness:
  "respond \<lparr>status = 500, statusText = ustr ''Internal Server Error'', json = Pending\<rparr>
      (alertsUrl (ustr ''CA'')) =
     Fulfilled \<lparr>status = 500, statusText = ustr ''Internal Server Error'', json = Pending\<rparr> \<and>
   fst (fetchWeatherAlerts asciiHost
          (respond \<lparr>status = 500, statusText = ustr ''Internal Server Error'', json = Pending\<rparr>)
          (ustr ''CA'') examplePage) =
     Rejected (Error (ustr ''API Error: 500 Internal Server Error'')) \<and>
   respond \<lparr>status = 200, statusText = ustr ''OK'', json = Fulfilled (Value twoAlerts)\<rparr>
      (alertsUrl (ustr ''CA'')) =
     Fulfilled \<lparr>status = 200, statusText = ustr ''OK'', json = Fulfilled (Value twoAlerts)\<rparr> \<and>
   fst (fetchWeatherAlerts asciiHost
          (respond \<lparr>status = 200, statusText = ustr ''OK'', json = Fulfilled (Value twoAlerts)\<rparr>)
          (ustr ''CA'') examplePage) =
     Fulfilled (Value twoAlerts)"
proof -
  let ?r = "\<lparr>status = 500, statusText = ustr ''Internal Server Error'', json = Pending\<rparr>"
  let ?q = "\<lparr>status = 200, statusText = ustr ''OK'', json = Fulfilled (Value twoAlerts)\<rparr>"
  have a: "respond ?r (alertsUrl (ustr ''CA'')) = Fulfilled ?r"
    by (simp add: respond_def)
  have b: "respond ?q (alertsUrl (ustr ''CA'')) = Fulfilled ?q"
    by (simp add: respond_def)
  show ?thesis
    using fetchWeatherAlerts_outcome[of "respond ?r" "ustr ''CA''" ?r asciiHost examplePage, OF a]
      fetchWeatherAlerts_outcome[of "respond ?q" "ustr ''CA''" ?q asciiHost examplePage, OF b] a b
    by (simp add: numberToString.simps)
qed

section \<open>The trigger handler: results\<close>

text \<open>
  Claim C5. The claim: on every exit path the handler re-enables the trigger control
  and restores its original label. On the code this fails for a control whose label was
  not \<open>"Get Weather Alerts"\<close>: the \<open>finally\<close> block writes that fixed text, here over the
  original label \<open>"Go"\<close>.
\<close>

theorem label_restored_counterexample:
  "handleGetAlerts asciiHost (\<lambda>url. Pending)
     (examplePage\<lparr>stateInput := Some (ustr ''1''),
                  fetchButton := Some \<lparr>disabled = False, buttonText = ustr ''Go''\<rparr>\<rparr>) =
     (Completed,
      examplePage\<lparr>stateInput := Some (ustr ''1''),
                  errorMessage := Some \<lparr>errorText = ustr ''State abbreviation must be exactly 2 letters'',
                                        classList = []\<rparr>,
                  fetchButton := Some \<lparr>disabled = False, buttonText = ustr ''Get Weather Alerts''\<rparr>\<rparr>) \<and>
   ustr ''Get Weather Alerts'' \<noteq> ustr ''Go''"
  by (simp add: handleGetAlerts_def tryBlock_def validateStateInput_string handlerCatch_def
      clearError_def enterBusy_def exitBusy_def displayError_def classList_add_def
      classList_remove_def example_defs)

text \<open>
  Claim C5, as amended. For every invocation of the handler that enters the busy state
  (the input and the trigger control exist; the control is disabled and labelled
  \<open>"Loading..."\<close>): whenever the handler completes, on whichever path, the control is
  enabled again and its label is the fixed text \<open>"Get Weather Alerts"\<close>. The handler fails
  to complete only when the request, or the reading of its body, never settles.
\<close>

theorem busy_released_on_exit:
  assumes "stateInput w = Some v"
    and "fetchButton w = Some b"
  shows "fetchButton (enterBusy (clearError w)) =
           Some \<lparr>disabled = True, buttonText = ustr ''Loading...''\<rparr> \<and>
         (fst (handleGetAlerts h net w) = Completed \<longrightarrow>
            fetchButton (snd (handleGetAlerts h net w)) =
              Some \<lparr>disabled = False, buttonText = ustr ''Get Weather Alerts''\<rparr>) \<and>
         (fst (handleGetAlerts h net w) = Suspended \<longrightarrow>
            net (alertsUrl (normalizedState h v)) = Pending \<or>
            (\<exists>r. net (alertsUrl (normalizedState h v)) = Fulfilled r \<and> json r = Pending))"
proof -
  have 1: "fetchButton (enterBusy (clearError w)) =
      Some \<lparr>disabled = True, buttonText = ustr ''Loading...''\<rparr>"
    using assms(2) by (simp add: fetchButton_enterBusy)
  have 2: "fst (handleGetAlerts h net w) = Completed \<longrightarrow>
      fetchButton (snd (handleGetAlerts h net w)) =
        Some \<lparr>disabled = False, buttonText = ustr ''Get Weather Alerts''\<rparr>"
    using handle_button[OF assms, of h net] by simp
  have 3: "fst (handleGetAlerts h net w) = Suspended \<longrightarrow>
      net (alertsUrl (normalizedState h v)) = Pending \<or>
      (\<exists>r. net (alertsUrl (normalizedState h v)) = Fulfilled r \<and> json r = Pending)"
    unfolding handle_fst[OF assms(1)] tryBlock_Suspended_iff fetch_Pending_iff by blast
  from 1 2 3 show ?thesis by blast
qed

theorem busy_released_on_exit_witness:
  "stateInput examplePage = Some (ustr '' ca '') \<and>
   fetchButton examplePage = Some \<lparr>disabled = False, buttonText = ustr ''Get Weather Alerts''\<rparr> \<and>
   fst (displayAlerts nullEntryBody examplePage) =
     Inl (TypeError (ReadOfNullish IsNull ''properties'')) \<and>
   fst (handleGetAlerts asciiHost
          (respond \<lparr>status = 200, statusText = ustr ''OK'', json = Fulfilled nullEntryBody\<rparr>)
          examplePage) = Completed \<and>
   fetchButton (snd (handleGetAlerts asciiHost
          (respond \<lparr>status = 200, statusText = ustr ''OK'', json = Fulfilled nullEntryBody\<rparr>)
          examplePage)) =
     Some \<lparr>disabled = False, buttonText = ustr ''Get Weather Alerts''\<rparr>"
proof -
  let ?net = "respond \<lparr>status = 200, statusText = ustr ''OK'', json = Fulfilled nullEntryBody\<rparr>"
  have a: "stateInput examplePage = Some (ustr '' ca '')"
    by (simp add: examplePage_def)
  have b: "fetchButton examplePage = Some \<lparr>disabled = False, buttonText = ustr ''Get Weather Alerts''\<rparr>"
    by (simp add: examplePage_def)
  have c: "fst (displayAlerts nullEntryBody examplePage) =
      Inl (TypeError (ReadOfNullish IsNull ''properties''))"
    by (simp add: displayAlerts_def nullEntryBody_def examplePage_def Let_def)
  have "fst (handleGetAlerts asciiHost ?net examplePage) \<noteq> Suspended"
    by (simp add: handle_fst[OF a] tryBlock_Suspended_iff fetch_Pending_iff respond_def)
  then have d: "fst (handleGetAlerts asciiHost ?net examplePage) = Completed"
    by (cases "fst (handleGetAlerts asciiHost ?net examplePage)") simp_all
  show ?thesis
    using busy_released_on_exit[OF a b, of asciiHost ?net] a b c d by simp
qed



text \<open>
  Claim C7. The claim: each presenter operation, when its element is absent, logs a
  diagnostic and returns without effect. On the code this fails for \<open>clearError\<close> (and
  \<open>clearInput\<close>): with the element absent nothing is logged.
\<close>

theorem clearError_logs_counterexample:
  "errorMessage (examplePage\<lparr>errorMessage := None\<rparr>) = None \<and>
   clearError (examplePage\<lparr>errorMessage := None\<rparr>) = examplePage\<lparr>errorMessage := None\<rparr> \<and>
   console (clearError (examplePage\<lparr>errorMessage := None\<rparr>)) = []"
  by (simp add: clearError_def examplePage_def)

text \<open>
  Claim C7, as amended. When the target element is absent, \<open>displayAlerts\<close> and
  \<open>displayError\<close> log a diagnostic to the console and return with no other effect;
  \<open>clearError\<close> and \<open>clearInput\<close> return with no effect at all, logging nothing. None of
  the four raises.
\<close>

theorem presenter_missing_element:
  "(alertsDisplay w = None \<longrightarrow>
      displayAlerts data w =
        (Inr (), w\<lparr>console := console w @ [ConsoleError ''Alerts display element not found'']\<rparr>)) \<and>
   (errorMessage w = None \<longrightarrow>
      displayError msg w =
        w\<lparr>console := console w @ [ConsoleError ''Error message element not found'']\<rparr> \<and>
      clearError w = w) \<and>
   (stateInput w = None \<longrightarrow> clearInput w = w)"
  by (simp add: displayAlerts_def displayError_def clearError_def clearInput_def)

theorem presenter_missing_element_witness:
  "alertsDisplay (examplePage\<lparr>alertsDisplay := None, errorMessage := None, stateInput := None\<rparr>) = None \<and>
   displayAlerts (Value twoAlerts)
       (examplePage\<lparr>alertsDisplay := None, errorMessage := None, stateInput := None\<rparr>) =
     (Inr (), examplePage\<lparr>alertsDisplay := None, errorMessage := None, stateInput := None,
                console := [ConsoleError ''Alerts display element not found'']\<rparr>) \<and>
   displayError (ustr ''oops'')
       (examplePage\<lparr>alertsDisplay := None, errorMessage := None, stateInput := None\<rparr>) =
     examplePage\<lparr>alertsDisplay := None, errorMessage := None, stateInput := None,
                 console := [ConsoleError ''Error message element not found'']\<rparr> \<and>
   clearError (examplePage\<lparr>alertsDisplay := None, errorMessage := None, stateInput := None\<rparr>) =
     examplePage\<lparr>alertsDisplay := None, errorMessage := None, stateInput := None\<rparr> \<and>
   clearInput (examplePage\<lparr>alertsDisplay := None, errorMessage := None, stateInput := None\<rparr>) =
     examplePage\<lparr>alertsDisplay := None, errorMessage := None, stateInput := None\<rparr>"
  using presenter_missing_element[of
      "examplePage\<lparr>alertsDisplay := None, errorMessage := None, stateInput := None\<rparr>"
      "Value twoAlerts" "ustr ''oops''"]
  by (simp add: examplePage_def)

text \<open>
  Claim C8. For every invocation of the handler on a page with the input: afterwards the
  input's value is empty if validation, the fetch and the rendering all succeeded, and
  is the value it had before in every other case.
\<close>

theorem input_cleared_iff_success:
  assumes "stateInput w = Some v"
    and "w0 = enterBusy (clearError w)"
    and "fetched = fetchWeatherAlerts h net (normalizedState h v) w0"
  shows "stateInput (snd (handleGetAlerts h net w)) =
     Some (if (\<exists>u. validateStateInput h (VStr v) = Inr u) \<and>
              (\<exists>data. fst fetched = Fulfilled data \<and>
                      fst (displayAlerts data (snd fetched)) = Inr ())
           then [] else v)"
  using assms
  by (auto simp: handle_snd tryBlock_cases clearInput_def
      split: sum.split promise.split)


theorem input_cleared_iff_success_witness:
  "stateInput examplePage = Some (ustr '' ca '') \<and>
   stateInput (snd (handleGetAlerts asciiHost
       (respond \<lparr>status = 200, statusText = ustr ''OK'', json = Fulfilled (Value twoAlerts)\<rparr>)
       examplePage)) = Some [] \<and>
   stateInput (snd (handleGetAlerts asciiHost
       (respond \<lparr>status = 200, statusText = ustr ''OK'', json = Fulfilled nullEntryBody\<rparr>)
       examplePage)) = Some (ustr '' ca '') \<and>
   stateInput (snd (handleGetAlerts asciiHost
       (respond \<lparr>status = 500, statusText = ustr ''Internal Server Error'', json = Pending\<rparr>)
       examplePage)) = Some (ustr '' ca '')"
proof -
  let ?good = "respond \<lparr>status = 200, statusText = ustr ''OK'', json = Fulfilled (Value twoAlerts)\<rparr>"
  let ?bad = "respond \<lparr>status = 200, statusText = ustr ''OK'', json = Fulfilled nullEntryBody\<rparr>"
  let ?err = "respond \<lparr>status = 500, statusText = ustr ''Internal Server Error'', json = Pending\<rparr>"
  let ?w0 = "enterBusy (clearError examplePage)"
  have a: "stateInput examplePage = Some (ustr '' ca '')"
    by (simp add: examplePage_def)
  have v: "validateStateInput asciiHost (VStr (ustr '' ca '')) = Inr (VBool True)"
    by (simp add: validateStateInput_string example_defs)
  have d: "alertsDisplay ?w0 = Some []"
    by (simp add: examplePage_def)
  have g: "fst (fetchWeatherAlerts asciiHost ?good (normalizedState asciiHost (ustr '' ca '')) ?w0) =
      Fulfilled (Value twoAlerts)"
    by (simp add: fetchWeatherAlerts_def respond_def ok_def Let_def)
  have b: "fst (fetchWeatherAlerts asciiHost ?bad (normalizedState asciiHost (ustr '' ca '')) ?w0) =
      Fulfilled nullEntryBody"
    by (simp add: fetchWeatherAlerts_def respond_def ok_def Let_def)
  have e: "fst (fetchWeatherAlerts asciiHost ?err (normalizedState asciiHost (ustr '' ca '')) ?w0) =
      Rejected (Error (apiErrorMessage \<lparr>status = 500, statusText = ustr ''Internal Server Error'', json = Pending\<rparr>))"
    by (simp add: fetchWeatherAlerts_def fetchCatch_def respond_def ok_def Let_def)
  have rg: "fst (displayAlerts (Value twoAlerts) w) = Inr ()" if "alertsDisplay w = Some []" for w
    using that by (simp add: displayAlerts_def twoAlerts_def Let_def)
  have rb: "fst (displayAlerts nullEntryBody w) \<noteq> Inr ()" if "alertsDisplay w = Some []" for w
    using that by (simp add: displayAlerts_def nullEntryBody_def Let_def)
  show ?thesis
    using input_cleared_iff_success[OF a refl refl, of asciiHost ?good]
      input_cleared_iff_success[OF a refl refl, of asciiHost ?bad]
      input_cleared_iff_success[OF a refl refl, of asciiHost ?err]
      a v g b e rg[of "snd (fetchWeatherAlerts asciiHost ?good (normalizedState asciiHost (ustr '' ca '')) ?w0)"]
      rb[of "snd (fetchWeatherAlerts asciiHost ?bad (normalizedState asciiHost (ustr '' ca '')) ?w0)"] d
    by simp
qed

end
